theory Spec2Isabelle
  imports Main
begin

section \<open>Python values\<close>

text \<open>
  The values that travel in client messages and change events are JSON scalars:
  \<open>None\<close>, booleans, integers and strings. Floats and containers are outside
  this development. \<open>py_str\<close> is what an f-string writes for a value,
  \<open>truthy\<close> is what \<open>if v:\<close> tests.
\<close>

datatype pyval = PNone | PBool bool | PInt int | PStr string

fun str_nat :: "nat \<Rightarrow> string" where
  "str_nat n =
     (if n < 10 then [''0123456789'' ! n]
      else str_nat (n div 10) @ [''0123456789'' ! (n mod 10)])"

fun py_str :: "pyval \<Rightarrow> string" where
  "py_str PNone = ''None''"
| "py_str (PBool b) = (if b then ''True'' else ''False'')"
| "py_str (PInt i) = (if i < 0 then ''-'' @ str_nat (nat (- i)) else str_nat (nat i))"
| "py_str (PStr s) = s"

fun truthy :: "pyval \<Rightarrow> bool" where
  "truthy PNone = False"
| "truthy (PBool b) = b"
| "truthy (PInt i) = (i \<noteq> 0)"
| "truthy (PStr s) = (s \<noteq> [])"

text \<open>Exceptions, by class. \<open>Fault\<close> stands for any other exception a collaborator raises.\<close>

datatype error =
    KeyError
  | IndexError
  | TypeError
  | ValueError
  | LookupError
  | DoesNotExist
  | MultipleObjectsReturned
  | Fault string

datatype outcome = Returned | Raised error

section \<open>Dictionaries\<close>

type_synonym dict = "string \<rightharpoonup> pyval"

text \<open>\<open>d.get(k)\<close> and \<open>d.get(k, default)\<close>.\<close>

definition dict_get :: "dict \<Rightarrow> string \<Rightarrow> pyval" where
  "dict_get d k = (case d k of None \<Rightarrow> PNone | Some v \<Rightarrow> v)"

definition dict_get_default :: "dict \<Rightarrow> string \<Rightarrow> pyval \<Rightarrow> pyval" where
  "dict_get_default d k dflt = (case d k of None \<Rightarrow> dflt | Some v \<Rightarrow> v)"

text \<open>
  A subscript \<open>d[k]\<close> on a dictionary whose keys are all strings, with a scalar
  \<open>k\<close>: a key of another type is not found. As an index Python's \<open>True\<close> and
  \<open>False\<close> are the integers \<open>1\<close> and \<open>0\<close>.
\<close>

fun str_key :: "pyval \<Rightarrow> string option" where
  "str_key (PStr s) = Some s"
| "str_key _ = None"

fun int_key :: "pyval \<Rightarrow> int option" where
  "int_key (PInt i) = Some i"
| "int_key (PBool b) = Some (if b then 1 else 0)"
| "int_key _ = None"

definition subscript :: "(pyval \<Rightarrow> 'k option) \<Rightarrow> ('k \<rightharpoonup> 'v) \<Rightarrow> pyval \<Rightarrow> error + 'v" where
  "subscript key d k =
     (case key k of
        None \<Rightarrow> Inl KeyError
      | Some k' \<Rightarrow> (case d k' of None \<Rightarrow> Inl KeyError | Some v \<Rightarrow> Inr v))"

text \<open>
  A subscript \<open>xs[k]\<close> on a list: an integer index, counted from the end when it is
  negative, raises \<open>IndexError\<close> out of range; an index that is no integer raises
  \<open>TypeError\<close>.
\<close>

definition list_subscript :: "'v list \<Rightarrow> pyval \<Rightarrow> error + 'v" where
  "list_subscript xs k =
     (case int_key k of
        None \<Rightarrow> Inl TypeError
      | Some i \<Rightarrow>
          if 0 \<le> i \<and> i < int (length xs) then Inr (xs ! nat i)
          else if i < 0 \<and> - int (length xs) \<le> i then Inr (xs ! nat (int (length xs) + i))
          else Inl IndexError)"

section \<open>Group addressing\<close>

definition get_group_name :: "pyval \<Rightarrow> pyval \<Rightarrow> pyval \<Rightarrow> string" where
  "get_group_name model_label val key_prop =
     ''RESOURCE-'' @ py_str model_label @ ''-'' @ py_str key_prop @ ''-'' @ py_str val"

section \<open>Collaborators\<close>

text \<open>
  The record store: \<open>apps.get_model(label)\<close> gives a model class or raises,
  \<open>model.objects.get(**filter)\<close> gives an instance or raises. Both belong to the
  framework and are parameters here.
\<close>

record ('m, 'i) store =
  get_model :: "pyval \<Rightarrow> error + 'm"
  objects_get :: "'m \<Rightarrow> dict \<Rightarrow> error + 'i"

text \<open>A permission check takes the connection's user and a record instance; it may raise.\<close>

type_synonym ('u, 'i) permission_lambda = "'u option \<Rightarrow> 'i \<Rightarrow> error + bool"

type_synonym ('ser, 'u, 'i) listener_entry = "'ser \<times> ('u, 'i) permission_lambda option"

text \<open>
  Modelled from the spec: the registry table \<open>__model_to_listeners\<close>, declared in the
  package's \<open>__init__\<close> module. It maps an entity type and a property name to the
  ordered sequence of the entries registered for them; the rank of an entry is its index
  in the sequence. An entry is a pair whose second component is the check, or \<open>None\<close>
  for no check; \<open>get_permissions\<close> drops the first component. The first two levels
  are dictionaries, the last is a list.
\<close>

type_synonym ('ser, 'u, 'i) registry =
  "string \<rightharpoonup> (string \<rightharpoonup> ('ser, 'u, 'i) listener_entry list)"

definition does_have_permission ::
  "('m, 'i) store \<Rightarrow> 'u option \<Rightarrow> pyval \<Rightarrow> dict \<Rightarrow> ('u, 'i) permission_lambda \<Rightarrow> error + bool" where
  "does_have_permission db usr model_label instance_filter check =
     (case get_model db model_label of
        Inl e \<Rightarrow> Inl e
      | Inr model \<Rightarrow>
          (case objects_get db model instance_filter of
             Inl e \<Rightarrow> Inl e
           | Inr inst \<Rightarrow> check usr inst))"

definition get_permissions ::
  "('ser, 'u, 'i) registry \<Rightarrow> pyval \<Rightarrow> pyval \<Rightarrow> pyval \<Rightarrow> error + ('ser, 'u, 'i) listener_entry" where
  "get_permissions listeners model_label group_key rnk =
     (case subscript str_key listeners model_label of
        Inl e \<Rightarrow> Inl e
      | Inr by_key \<Rightarrow>
          (case subscript str_key by_key group_key of
             Inl e \<Rightarrow> Inl e
           | Inr by_rank \<Rightarrow> list_subscript by_rank rnk))"

section \<open>The consumer\<close>

text \<open>
  What a consumer does to the outside is kept in order in \<open>trace\<close>: lines printed,
  payloads sent to the client, calls the channel layer has carried out.
\<close>

datatype effect =
    Accept
  | Print string
  | SendJson dict
  | GroupAdd string string
  | GroupDiscard string string

text \<open>
  Modelled from the spec: the channel layer (the broadcast fabric) maps a group
  identifier to the set of member connections; \<open>group_add\<close> and \<open>group_discard\<close>
  insert and remove a channel. The layer is the framework's. It takes a group name only
  if the name has fewer than 100 characters, all of them ASCII letters, digits, hyphens,
  underscores or periods, and at least one; \<open>group_add\<close> raises \<open>TypeError\<close> for any
  other name. \<open>group_discard\<close> is called with a name taken out of the group list.
\<close>

definition valid_group_name :: "string \<Rightarrow> bool" where
  "valid_group_name g =
     (length g < 100 \<and> g \<noteq> [] \<and>
      list_all
        (\<lambda>c. c \<in> set ''abcdefghijklmnopqrstuvwxyzABCDEFGHIJKLMNOPQRSTUVWXYZ0123456789-_.'')
        g)"

record 'u consumer =
  user :: "'u option"
  channel_name :: string
  groups :: "string list"
  channel_layer :: "string \<Rightarrow> string set"
  trace :: "effect list"

definition emit :: "effect \<Rightarrow> 'u consumer \<Rightarrow> 'u consumer" where
  "emit e s = s\<lparr>trace := trace s @ [e]\<rparr>"

definition send_json :: "dict \<Rightarrow> 'u consumer \<Rightarrow> 'u consumer" where
  "send_json payload s = emit (SendJson payload) s"

definition group_add :: "string \<Rightarrow> 'u consumer \<Rightarrow> error + 'u consumer" where
  "group_add g s =
     (if valid_group_name g
      then Inr (emit (GroupAdd g (channel_name s))
             (s\<lparr>channel_layer :=
                  (channel_layer s)(g := insert (channel_name s) (channel_layer s g))\<rparr>))
      else Inl TypeError)"

definition group_discard :: "string \<Rightarrow> 'u consumer \<Rightarrow> 'u consumer" where
  "group_discard g s =
     emit (GroupDiscard g (channel_name s))
       (s\<lparr>channel_layer := (channel_layer s)(g := channel_layer s g - {channel_name s})\<rparr>)"

definition connect :: "(string \<rightharpoonup> 'u) \<Rightarrow> 'u consumer \<Rightarrow> outcome \<times> 'u consumer" where
  "connect scope s = (Returned, emit Accept (s\<lparr>user := scope ''user''\<rparr>))"

text \<open>
  A change event is a dictionary; each of its four entries may be missing, and reading a
  missing one raises \<open>KeyError\<close>.
\<close>

record event =
  content :: "dict option"
  group_key :: "pyval option"
  instance_pk :: "pyval option"
  rank :: "pyval option"

definition notify ::
  "('ser, 'u, 'i) registry \<Rightarrow> ('m, 'i) store \<Rightarrow> event \<Rightarrow> 'u consumer \<Rightarrow> outcome \<times> 'u consumer" where
  "notify listeners db ev s =
     (case content ev of
        None \<Rightarrow> (Raised KeyError, s)
      | Some cont \<Rightarrow>
     (case group_key ev of
        None \<Rightarrow> (Raised KeyError, s)
      | Some gk \<Rightarrow>
     (case instance_pk ev of
        None \<Rightarrow> (Raised KeyError, s)
      | Some pk \<Rightarrow>
     (case rank ev of
        None \<Rightarrow> (Raised KeyError, s)
      | Some rnk \<Rightarrow>
     (case cont ''model'' of
        None \<Rightarrow> (Raised KeyError, s)
      | Some model_label \<Rightarrow>
     (case get_permissions listeners model_label gk rnk of
        Inl e \<Rightarrow>
          if e = KeyError then (Returned, emit (Print ''NO ENTRY -- ERROR'') s)
          else (Raised e, s)
      | Inr (_, check) \<Rightarrow>
          (case check of
             None \<Rightarrow>
               (Returned, send_json cont (emit (Print ''SENDING PAYLOAD -- CHECK NONE'') s))
           | Some chk \<Rightarrow>
               (case does_have_permission db (user s) model_label [''id'' \<mapsto> pk] chk of
                  Inl e \<Rightarrow> (Raised e, s)
                | Inr has_permission \<Rightarrow>
                    if has_permission
                    then (Returned,
                          send_json cont (emit (Print ''SENDING PAYLOAD -- CHECK PASSED'') s))
                    else (Returned, emit (Print ''CHECK FAILED'') s)))))))))"

text \<open>
  \<open>list.remove\<close> deletes the first occurrence and raises \<open>ValueError\<close> when there is
  none.
\<close>

definition receive_json :: "dict \<Rightarrow> 'u consumer \<Rightarrow> outcome \<times> 'u consumer" where
  "receive_json cont s =
     (let model_label = dict_get cont ''model'' in
      if model_label = PNone then (Returned, emit (Print ''[LIVE] No model'') s)
      else
        let prop = dict_get cont ''property'';
            val = dict_get cont ''value''
        in
        if val = PNone
        then (Returned, emit (Print (''[LIVE] No value for prop '' @ py_str prop @ '' found.'')) s)
        else
          let group_name = get_group_name model_label val prop;
              unsubscribe = dict_get_default cont ''unsubscribe'' (PBool False)
          in
          if \<not> truthy unsubscribe then
            let s1 = emit (Print (''[REST-LIVE] got subscription to '' @ group_name)) s;
                s2 = s1\<lparr>groups := groups s1 @ [group_name]\<rparr>
            in (case group_add group_name s2 of
                  Inl e \<Rightarrow> (Raised e, s2)
                | Inr s3 \<Rightarrow> (Returned, s3))
          else
            let s1 = emit (Print (''[REST-LIVE] got unsubscribe for '' @ group_name)) s in
            if group_name \<notin> set (groups s1) then (Raised ValueError, s1)
            else
              let s2 = s1\<lparr>groups := remove1 group_name (groups s1)\<rparr> in
              if group_name \<notin> set (groups s2) then (Returned, group_discard group_name s2)
              else (Returned, s2))"

text \<open>The payloads a trace sends to the client, in order.\<close>

fun sent :: "effect list \<Rightarrow> dict list" where
  "sent [] = []"
| "sent (SendJson p # es) = p # sent es"
| "sent (_ # es) = sent es"

text \<open>The calls a trace makes to the channel layer, in order.\<close>

fun fabric_calls :: "effect list \<Rightarrow> effect list" where
  "fabric_calls [] = []"
| "fabric_calls (GroupAdd g c # es) = GroupAdd g c # fabric_calls es"
| "fabric_calls (GroupDiscard g c # es) = GroupDiscard g c # fabric_calls es"
| "fabric_calls (_ # es) = fabric_calls es"

section \<open>Properties\<close>

lemma sent_append: "sent (es @ fs) = sent es @ sent fs"
  by (induction es rule: sent.induct) simp_all

lemma fabric_calls_append: "fabric_calls (es @ fs) = fabric_calls es @ fabric_calls fs"
  by (induction es rule: fabric_calls.induct) simp_all

lemma count_list_remove1: "count_list (remove1 x xs) x = count_list xs x - 1"
  by (induction xs) auto

lemma member_remove1_iff: "x \<in> set (remove1 x xs) \<longleftrightarrow> 1 < count_list xs x"
proof -
  have "x \<in> set (remove1 x xs) \<longleftrightarrow> 0 < count_list (remove1 x xs) x"
    using count_list_0_iff [of "remove1 x xs" x] by auto
  then show ?thesis by (simp add: count_list_remove1)
qed

lemma hyphen_split:
  assumes "CHR ''-'' \<notin> set a" and "CHR ''-'' \<notin> set b"
    and "a @ CHR ''-'' # r = b @ CHR ''-'' # t"
  shows "a = b \<and> r = t"
  using assms
proof (induction a arbitrary: b)
  case Nil
  then show ?case by (cases b) auto
next
  case (Cons x a)
  then show ?case by (cases b) auto
qed

lemma subscript_error: "subscript key d k = Inl e \<Longrightarrow> e = KeyError"
  by (auto simp: subscript_def split: option.splits)

lemma receive_json_subscribe:
  assumes "dict_get cont ''model'' \<noteq> PNone"
    and "dict_get cont ''value'' \<noteq> PNone"
    and "\<not> truthy (dict_get_default cont ''unsubscribe'' (PBool False))"
    and "valid_group_name
           (get_group_name (dict_get cont ''model'') (dict_get cont ''value'')
              (dict_get cont ''property''))"
  shows "receive_json cont s =
     (Returned,
      s\<lparr>groups := groups s @
           [get_group_name (dict_get cont ''model'') (dict_get cont ''value'')
              (dict_get cont ''property'')],
        channel_layer := (channel_layer s)
          (get_group_name (dict_get cont ''model'') (dict_get cont ''value'')
              (dict_get cont ''property'') :=
             insert (channel_name s)
               (channel_layer s
                 (get_group_name (dict_get cont ''model'') (dict_get cont ''value'')
                    (dict_get cont ''property'')))),
        trace := trace s @
          [Print (''[REST-LIVE] got subscription to '' @
             get_group_name (dict_get cont ''model'') (dict_get cont ''value'')
               (dict_get cont ''property'')),
           GroupAdd
             (get_group_name (dict_get cont ''model'') (dict_get cont ''value'')
               (dict_get cont ''property''))
             (channel_name s)]\<rparr>)"
  using assms by (simp add: receive_json_def Let_def emit_def group_add_def)

text \<open>
  A request with no \<open>model\<close> or no \<open>value\<close> (the key missing, or its value null) is
  rejected: \<open>receive_json\<close> returns normally, prints one line, and changes nothing else.
\<close>

lemma receive_json_rejects_missing_model_or_value:
  assumes "dict_get cont ''model'' = PNone \<or> dict_get cont ''value'' = PNone"
  shows "\<exists>msg. receive_json cont s = (Returned, s\<lparr>trace := trace s @ [Print msg]\<rparr>)"
  using assms by (auto simp: receive_json_def Let_def emit_def)

text \<open>
  An event whose model label or group key is not in the registry is dropped, whatever
  its rank: the failed dictionary lookup is a \<open>KeyError\<close>, which \<open>notify\<close> catches.
\<close>

lemma notify_unknown_label_or_key:
  assumes "cont ''model'' = Some ml"
    and "subscript str_key listeners ml = Inl e
         \<or> (\<exists>by_key. subscript str_key listeners ml = Inr by_key
                \<and> subscript str_key by_key gk = Inl e)"
  shows "notify listeners db
           \<lparr>content = Some cont, group_key = Some gk, instance_pk = Some pk, rank = Some rk\<rparr> s
         = (Returned, s\<lparr>trace := trace s @ [Print ''NO ENTRY -- ERROR'']\<rparr>)"
proof -
  from assms(2) have "get_permissions listeners ml gk rk = Inl KeyError"
    by (auto simp: get_permissions_def dest: subscript_error)
  with assms(1) show ?thesis by (simp add: notify_def emit_def)
qed

text \<open>
  A subscribe request whose group name the channel layer refuses: the name is already
  in the group list when \<open>group_add\<close> raises.
\<close>

lemma receive_json_subscribe_refused_name:
  "receive_json [''model'' \<mapsto> PStr ''shop.Order'', ''property'' \<mapsto> PStr ''id'', ''value'' \<mapsto> PStr ''a b'']
     (\<lparr>user = Some ''alice'', channel_name = ''chan'', groups = [],
         channel_layer = (\<lambda>g. {}), trace = []\<rparr> :: string consumer)
   = (Raised TypeError,
      \<lparr>user = Some ''alice'', channel_name = ''chan'',
       groups = [''RESOURCE-shop.Order-id-a b''],
       channel_layer = (\<lambda>g. {}),
       trace = [Print ''[REST-LIVE] got subscription to RESOURCE-shop.Order-id-a b'']\<rparr>)"
  by (simp add: receive_json_def dict_get_def dict_get_default_def get_group_name_def
      Let_def emit_def group_add_def valid_group_name_def)

subsection \<open>Delivery\<close>

text \<open>
  C1. When the event's triple resolves to a registry entry, \<open>notify\<close> sends the event's
  content to the client exactly when the entry has no check, or the model is found, the
  instance is fetched from the record store at delivery, and the check, applied to the
  connection's user and that instance, returns \<open>True\<close>. In every other case, a check
  that returns \<open>False\<close> among them, nothing is sent.
\<close>

theorem notify_forwards_iff:
  assumes "cont ''model'' = Some ml"
    and "get_permissions listeners ml gk rk = Inr (ser, check)"
  shows "sent (trace (snd (notify listeners db
           \<lparr>content = Some cont, group_key = Some gk, instance_pk = Some pk, rank = Some rk\<rparr> s)))
         = sent (trace s) @
           (if check = None \<or>
               (\<exists>chk model inst.
                  check = Some chk \<and> get_model db ml = Inr model
                  \<and> objects_get db model [''id'' \<mapsto> pk] = Inr inst
                  \<and> chk (user s) inst = Inr True)
            then [cont] else [])"
  using assms
  by (auto simp: notify_def does_have_permission_def emit_def send_json_def sent_append
      split: option.splits sum.splits)

theorem notify_forwards_iff_witness:
  "[''model'' \<mapsto> PStr ''shop.Order'', ''pk'' \<mapsto> PInt 42] ''model'' = Some (PStr ''shop.Order'')
   \<and> get_permissions
        ([''shop.Order'' \<mapsto> [''id'' \<mapsto> [((), Some (\<lambda>u i. Inr (u = Some i)))]]]
           :: (unit, string, string) registry)
        (PStr ''shop.Order'') (PStr ''id'') (PInt 0)
      = Inr ((), Some (\<lambda>u i. Inr (u = Some i)))
   \<and> sent (trace (snd (notify
        ([''shop.Order'' \<mapsto> [''id'' \<mapsto> [((), Some (\<lambda>u i. Inr (u = Some i)))]]]
           :: (unit, string, string) registry)
        \<lparr>get_model = (\<lambda>l. if l = PStr ''shop.Order'' then Inr ''Order'' else Inl LookupError),
         objects_get = (\<lambda>m f. if f ''id'' = Some (PInt 42) then Inr ''alice''
                                else Inl DoesNotExist)\<rparr>
        \<lparr>content = Some [''model'' \<mapsto> PStr ''shop.Order'', ''pk'' \<mapsto> PInt 42],
         group_key = Some (PStr ''id''), instance_pk = Some (PInt 42), rank = Some (PInt 0)\<rparr>
        \<lparr>user = Some ''alice'', channel_name = ''chan'', groups = [],
         channel_layer = (\<lambda>g. {}), trace = []\<rparr>)))
      = [[''model'' \<mapsto> PStr ''shop.Order'', ''pk'' \<mapsto> PInt 42]]
   \<and> sent (trace (snd (notify
        ([''shop.Order'' \<mapsto> [''id'' \<mapsto> [((), Some (\<lambda>u i. Inr (u = Some i)))]]]
           :: (unit, string, string) registry)
        \<lparr>get_model = (\<lambda>l. if l = PStr ''shop.Order'' then Inr ''Order'' else Inl LookupError),
         objects_get = (\<lambda>m f. if f ''id'' = Some (PInt 42) then Inr ''bob''
                                else Inl DoesNotExist)\<rparr>
        \<lparr>content = Some [''model'' \<mapsto> PStr ''shop.Order'', ''pk'' \<mapsto> PInt 42],
         group_key = Some (PStr ''id''), instance_pk = Some (PInt 42), rank = Some (PInt 0)\<rparr>
        \<lparr>user = Some ''alice'', channel_name = ''chan'', groups = [],
         channel_layer = (\<lambda>g. {}), trace = []\<rparr>)))
      = []"
  using notify_forwards_iff
    [where cont = "[''model'' \<mapsto> PStr ''shop.Order'', ''pk'' \<mapsto> PInt 42]"
       and ml = "PStr ''shop.Order''"
       and listeners = "[''shop.Order'' \<mapsto> [''id'' \<mapsto> [((), Some (\<lambda>u i. Inr (u = Some i)))]]]"
       and gk = "PStr ''id''" and rk = "PInt 0" and pk = "PInt 42" and ser = "()"
       and check = "Some (\<lambda>u i. Inr (u = Some i))"
       and db = "\<lparr>get_model = (\<lambda>l. if l = PStr ''shop.Order'' then Inr ''Order''
                                   else Inl LookupError),
                 objects_get = (\<lambda>m f. if f ''id'' = Some (PInt 42) then Inr ''alice''
                                        else Inl DoesNotExist)\<rparr>"
       and s = "\<lparr>user = Some ''alice'', channel_name = ''chan'', groups = [],
         channel_layer = (\<lambda>g. {}), trace = []\<rparr>"]
    notify_forwards_iff
    [where cont = "[''model'' \<mapsto> PStr ''shop.Order'', ''pk'' \<mapsto> PInt 42]"
       and ml = "PStr ''shop.Order''"
       and listeners = "[''shop.Order'' \<mapsto> [''id'' \<mapsto> [((), Some (\<lambda>u i. Inr (u = Some i)))]]]"
       and gk = "PStr ''id''" and rk = "PInt 0" and pk = "PInt 42" and ser = "()"
       and check = "Some (\<lambda>u i. Inr (u = Some i))"
       and db = "\<lparr>get_model = (\<lambda>l. if l = PStr ''shop.Order'' then Inr ''Order''
                                   else Inl LookupError),
                 objects_get = (\<lambda>m f. if f ''id'' = Some (PInt 42) then Inr ''bob''
                                        else Inl DoesNotExist)\<rparr>"
       and s = "\<lparr>user = Some ''alice'', channel_name = ''chan'', groups = [],
         channel_layer = (\<lambda>g. {}), trace = []\<rparr>"]
  by (simp add: get_permissions_def subscript_def list_subscript_def)

text \<open>
  C5 against the code: an event for \<open>(shop.Order, id)\<close>, where one entry is registered,
  with rank 7. The subscript on the sequence of entries raises \<open>IndexError\<close>, which
  \<open>except KeyError\<close> does not catch: \<open>notify\<close> ends with that exception and prints no
  diagnostic.
\<close>

theorem notify_rank_out_of_range_raises:
  "get_permissions
     ([''shop.Order'' \<mapsto> [''id'' \<mapsto> [((), None)]]] :: (unit, string, string) registry)
     (PStr ''shop.Order'') (PStr ''id'') (PInt 7)
     = Inl IndexError
   \<and> notify
        ([''shop.Order'' \<mapsto> [''id'' \<mapsto> [((), None)]]] :: (unit, string, string) registry)
        \<lparr>get_model = (\<lambda>l. Inr ''Order''), objects_get = (\<lambda>m f. Inr ''alice'')\<rparr>
        \<lparr>content = Some [''model'' \<mapsto> PStr ''shop.Order''], group_key = Some (PStr ''id''),
         instance_pk = Some (PInt 42), rank = Some (PInt 7)\<rparr>
        \<lparr>user = Some ''alice'', channel_name = ''chan'', groups = [],
         channel_layer = (\<lambda>g. {}), trace = []\<rparr>
     = (Raised IndexError,
        \<lparr>user = Some ''alice'', channel_name = ''chan'', groups = [],
         channel_layer = (\<lambda>g. {}), trace = []\<rparr>)"
  by (simp add: notify_def get_permissions_def subscript_def list_subscript_def)

text \<open>
  C6, as the code has it. When the check evaluation faults (the model or the instance is
  not found in the record store, or the check itself raises), \<open>notify\<close> sends nothing
  and leaves the consumer as it was: no payload, no printed line.
\<close>

theorem notify_check_fault_sends_nothing:
  assumes "cont ''model'' = Some ml"
    and "get_permissions listeners ml gk rk = Inr (ser, Some chk)"
    and "does_have_permission db (user s) ml [''id'' \<mapsto> pk] chk = Inl e"
  shows "snd (notify listeners db
           \<lparr>content = Some cont, group_key = Some gk, instance_pk = Some pk, rank = Some rk\<rparr> s)
         = s
       \<and> sent (trace (snd (notify listeners db
           \<lparr>content = Some cont, group_key = Some gk, instance_pk = Some pk, rank = Some rk\<rparr> s)))
         = sent (trace s)"
  using assms by (simp add: notify_def)

theorem notify_check_fault_sends_nothing_witness:
  "[''model'' \<mapsto> PStr ''shop.Order''] ''model'' = Some (PStr ''shop.Order'')
   \<and> get_permissions
        ([''shop.Order'' \<mapsto> [''id'' \<mapsto> [((), Some (\<lambda>u i. Inl (Fault ''boom'')))]]]
           :: (unit, string, string) registry)
        (PStr ''shop.Order'') (PStr ''id'') (PInt 0)
      = Inr ((), Some (\<lambda>u i. Inl (Fault ''boom'')))
   \<and> does_have_permission
        \<lparr>get_model = (\<lambda>l. Inr ''Order''), objects_get = (\<lambda>m f. Inr ''alice'')\<rparr>
        (Some ''alice'') (PStr ''shop.Order'') [''id'' \<mapsto> PInt 42]
        (\<lambda>u i. Inl (Fault ''boom''))
      = Inl (Fault ''boom'')
   \<and> snd (notify
        ([''shop.Order'' \<mapsto> [''id'' \<mapsto> [((), Some (\<lambda>u i. Inl (Fault ''boom'')))]]]
           :: (unit, string, string) registry)
        \<lparr>get_model = (\<lambda>l. Inr ''Order''), objects_get = (\<lambda>m f. Inr ''alice'')\<rparr>
        \<lparr>content = Some [''model'' \<mapsto> PStr ''shop.Order''], group_key = Some (PStr ''id''),
         instance_pk = Some (PInt 42), rank = Some (PInt 0)\<rparr>
        \<lparr>user = Some ''alice'', channel_name = ''chan'', groups = [],
         channel_layer = (\<lambda>g. {}), trace = []\<rparr>)
      = \<lparr>user = Some ''alice'', channel_name = ''chan'', groups = [],
         channel_layer = (\<lambda>g. {}), trace = []\<rparr>"
  using notify_check_fault_sends_nothing
    [where cont = "[''model'' \<mapsto> PStr ''shop.Order'']" and ml = "PStr ''shop.Order''"
       and listeners = "[''shop.Order'' \<mapsto> [''id'' \<mapsto> [((), Some (\<lambda>u i. Inl (Fault ''boom'')))]]]"
       and gk = "PStr ''id''" and rk = "PInt 0" and pk = "PInt 42" and ser = "()"
       and chk = "\<lambda>u i. Inl (Fault ''boom'')" and e = "Fault ''boom''"
       and db = "\<lparr>get_model = (\<lambda>l. Inr ''Order''), objects_get = (\<lambda>m f. Inr ''alice'')\<rparr>"
       and s = "\<lparr>user = Some ''alice'', channel_name = ''chan'', groups = [],
                 channel_layer = (\<lambda>g. {}), trace = []\<rparr>"]
  by (simp add: get_permissions_def subscript_def list_subscript_def does_have_permission_def)

text \<open>
  C6, as stated, fails: an event for a record that is no longer in the store. The fetch
  raises \<open>DoesNotExist\<close> and \<open>notify\<close> ends with that exception instead of treating the
  delivery as denied.
\<close>

theorem notify_record_not_found_raises:
  "does_have_permission
     \<lparr>get_model = (\<lambda>l. Inr ''Order''), objects_get = (\<lambda>m f. Inl DoesNotExist)\<rparr>
     (Some ''alice'') (PStr ''shop.Order'') [''id'' \<mapsto> PInt 42]
     (\<lambda>u i. Inr (u = Some (i :: string)))
     = Inl DoesNotExist
   \<and> fst (notify
        ([''shop.Order'' \<mapsto> [''id'' \<mapsto> [((), Some (\<lambda>u i. Inr (u = Some i)))]]]
           :: (unit, string, string) registry)
        \<lparr>get_model = (\<lambda>l. Inr ''Order''), objects_get = (\<lambda>m f. Inl DoesNotExist)\<rparr>
        \<lparr>content = Some [''model'' \<mapsto> PStr ''shop.Order''], group_key = Some (PStr ''id''),
         instance_pk = Some (PInt 42), rank = Some (PInt 0)\<rparr>
        \<lparr>user = Some ''alice'', channel_name = ''chan'', groups = [],
         channel_layer = (\<lambda>g. {}), trace = []\<rparr>)
     = Raised DoesNotExist"
  by (simp add: notify_def get_permissions_def subscript_def list_subscript_def does_have_permission_def)

text \<open>
  C9. \<open>notify\<close> reads \<open>content["model"]\<close> before the \<open>try\<close>. For an event whose
  content has no key \<open>model\<close> it ends with \<open>KeyError\<close>, whatever the registry holds; the
  registry-miss handler is not reached, so nothing is printed and the consumer is as it
  was.
\<close>

theorem notify_missing_model_unhandled:
  assumes "content ev = Some cont" and "cont ''model'' = None"
  shows "notify listeners db ev s = (Raised KeyError, s)"
  using assms by (simp add: notify_def split: option.splits)

theorem notify_missing_model_unhandled_witness:
  "content \<lparr>content = Some [''pk'' \<mapsto> PInt 42], group_key = Some (PStr ''id''),
              instance_pk = Some (PInt 42), rank = Some (PInt 0)\<rparr>
     = Some [''pk'' \<mapsto> PInt 42]
   \<and> [''pk'' \<mapsto> PInt 42] ''model'' = None
   \<and> notify
        ([''shop.Order'' \<mapsto> [''id'' \<mapsto> [((), None)]]] :: (unit, string, string) registry)
        \<lparr>get_model = (\<lambda>l. Inr ''Order''), objects_get = (\<lambda>m f. Inr ''alice'')\<rparr>
        \<lparr>content = Some [''pk'' \<mapsto> PInt 42], group_key = Some (PStr ''id''),
         instance_pk = Some (PInt 42), rank = Some (PInt 0)\<rparr>
        \<lparr>user = Some ''alice'', channel_name = ''chan'', groups = [],
         channel_layer = (\<lambda>g. {}), trace = []\<rparr>
     = (Raised KeyError,
        \<lparr>user = Some ''alice'', channel_name = ''chan'', groups = [],
         channel_layer = (\<lambda>g. {}), trace = []\<rparr>)"
  using notify_missing_model_unhandled
    [of "\<lparr>content = Some [''pk'' \<mapsto> PInt 42], group_key = Some (PStr ''id''),
          instance_pk = Some (PInt 42), rank = Some (PInt 0)\<rparr>"
        "[''pk'' \<mapsto> PInt 42]"
        "[''shop.Order'' \<mapsto> [''id'' \<mapsto> [((), None)]]]"
        "\<lparr>get_model = (\<lambda>l. Inr ''Order''), objects_get = (\<lambda>m f. Inr ''alice'')\<rparr>"
        "\<lparr>user = Some ''alice'', channel_name = ''chan'', groups = [],
          channel_layer = (\<lambda>g. {}), trace = []\<rparr>"]
  by simp

text \<open>
  C10. When the event resolves to an entry with a check, \<open>notify\<close> looks the model up
  by the event's label and fetches the instance with the filter \<open>{"id": instance_pk}\<close>,
  whatever the group key: what \<open>notify\<close> does is decided by the answer of
  \<open>objects.get\<close> to that filter. A failed fetch ends \<open>notify\<close> with its exception; a
  fetched instance is handed to the check, and the check's answer decides between
  sending the content and the line \<open>CHECK FAILED\<close>.
\<close>

theorem notify_fetch_by_id:
  assumes "cont ''model'' = Some ml"
    and "get_permissions listeners ml gk rk = Inr (ser, Some chk)"
  shows "notify listeners db
           \<lparr>content = Some cont, group_key = Some gk, instance_pk = Some pk, rank = Some rk\<rparr> s
         = (case get_model db ml of
              Inl e \<Rightarrow> (Raised e, s)
            | Inr model \<Rightarrow>
                (case objects_get db model [''id'' \<mapsto> pk] of
                   Inl e \<Rightarrow> (Raised e, s)
                 | Inr inst \<Rightarrow>
                     (case chk (user s) inst of
                        Inl e \<Rightarrow> (Raised e, s)
                      | Inr allowed \<Rightarrow>
                          if allowed
                          then (Returned,
                                s\<lparr>trace := trace s @
                                   [Print ''SENDING PAYLOAD -- CHECK PASSED'', SendJson cont]\<rparr>)
                          else (Returned, s\<lparr>trace := trace s @ [Print ''CHECK FAILED'']\<rparr>))))"
  using assms
  by (simp add: notify_def does_have_permission_def emit_def send_json_def
      split: sum.split)

theorem notify_fetch_by_id_witness:
  "[''model'' \<mapsto> PStr ''shop.Order''] ''model'' = Some (PStr ''shop.Order'')
   \<and> get_permissions
        ([''shop.Order'' \<mapsto> [''owner'' \<mapsto> [((), Some (\<lambda>u i. Inr (u = Some i)))]]]
           :: (unit, string, string) registry)
        (PStr ''shop.Order'') (PStr ''owner'') (PInt 0)
      = Inr ((), Some (\<lambda>u i. Inr (u = Some i)))
   \<and> notify
        ([''shop.Order'' \<mapsto> [''owner'' \<mapsto> [((), Some (\<lambda>u i. Inr (u = Some i)))]]]
           :: (unit, string, string) registry)
        \<lparr>get_model = (\<lambda>l. Inr ''Order''),
         objects_get = (\<lambda>m f. if f ''id'' = Some (PInt 42) \<and> f ''owner'' = None
                                then Inr ''alice'' else Inl DoesNotExist)\<rparr>
        \<lparr>content = Some [''model'' \<mapsto> PStr ''shop.Order''],
         group_key = Some (PStr ''owner''), instance_pk = Some (PInt 42),
         rank = Some (PInt 0)\<rparr>
        \<lparr>user = Some ''alice'', channel_name = ''chan'', groups = [],
         channel_layer = (\<lambda>g. {}), trace = []\<rparr>
     = (Returned,
        \<lparr>user = Some ''alice'', channel_name = ''chan'', groups = [],
         channel_layer = (\<lambda>g. {}),
         trace = [Print ''SENDING PAYLOAD -- CHECK PASSED'',
                  SendJson [''model'' \<mapsto> PStr ''shop.Order'']]\<rparr>)"
  using notify_fetch_by_id
    [where cont = "[''model'' \<mapsto> PStr ''shop.Order'']" and ml = "PStr ''shop.Order''"
       and pk = "PInt 42" and gk = "PStr ''owner''" and rk = "PInt 0" and ser = "()"
       and chk = "\<lambda>u i. Inr (u = Some i)"
       and listeners = "[''shop.Order'' \<mapsto> [''owner'' \<mapsto> [((), Some (\<lambda>u i. Inr (u = Some i)))]]]"
       and db = "\<lparr>get_model = (\<lambda>l. Inr ''Order''),
             objects_get = (\<lambda>m f. if f ''id'' = Some (PInt 42) \<and> f ''owner'' = None
                                    then Inr ''alice'' else Inl DoesNotExist)\<rparr>"
       and s = "\<lparr>user = Some ''alice'', channel_name = ''chan'', groups = [],
         channel_layer = (\<lambda>g. {}), trace = []\<rparr>"]
  by (simp add: get_permissions_def subscript_def list_subscript_def)

subsection \<open>Group addressing\<close>

text \<open>
  C2, as the code has it. \<open>get_group_name\<close> is a function of its three arguments, and
  on tuples whose model label and property name are written without a hyphen two
  tuples get the same identifier exactly when their three components are written alike
  by \<open>str\<close>. So distinct tuples of strings with hyphen-free label and property get
  distinct identifiers.
\<close>

theorem get_group_name_collision_iff:
  assumes "CHR ''-'' \<notin> set (py_str m1)" and "CHR ''-'' \<notin> set (py_str p1)"
    and "CHR ''-'' \<notin> set (py_str m2)" and "CHR ''-'' \<notin> set (py_str p2)"
  shows "get_group_name m1 v1 p1 = get_group_name m2 v2 p2 \<longleftrightarrow>
         py_str m1 = py_str m2 \<and> py_str p1 = py_str p2 \<and> py_str v1 = py_str v2"
proof
  assume eq: "get_group_name m1 v1 p1 = get_group_name m2 v2 p2"
  then have "py_str m1 @ CHR ''-'' # (py_str p1 @ CHR ''-'' # py_str v1)
           = py_str m2 @ CHR ''-'' # (py_str p2 @ CHR ''-'' # py_str v2)"
    by (simp add: get_group_name_def)
  with assms(1,3) have m: "py_str m1 = py_str m2"
    and rest: "py_str p1 @ CHR ''-'' # py_str v1 = py_str p2 @ CHR ''-'' # py_str v2"
    using hyphen_split by blast+
  from hyphen_split [OF assms(2,4) rest] m
  show "py_str m1 = py_str m2 \<and> py_str p1 = py_str p2 \<and> py_str v1 = py_str v2"
    by simp
next
  assume "py_str m1 = py_str m2 \<and> py_str p1 = py_str p2 \<and> py_str v1 = py_str v2"
  then show "get_group_name m1 v1 p1 = get_group_name m2 v2 p2"
    by (simp add: get_group_name_def)
qed

theorem get_group_name_collision_iff_witness:
  "CHR ''-'' \<notin> set (py_str (PStr ''shop.Order'')) \<and> CHR ''-'' \<notin> set (py_str (PStr ''id''))
   \<and> CHR ''-'' \<notin> set (py_str (PStr ''shop.Item'')) \<and> CHR ''-'' \<notin> set (py_str (PStr ''id''))
   \<and> get_group_name (PStr ''shop.Order'') (PInt 42) (PStr ''id'')
       \<noteq> get_group_name (PStr ''shop.Item'') (PInt 42) (PStr ''id'')"
  using get_group_name_collision_iff
    [of "PStr ''shop.Order''" "PStr ''id''" "PStr ''shop.Item''" "PStr ''id''"
        "PInt 42" "PInt 42"]
  by simp

text \<open>
  C2, as stated, fails: a hyphen inside a component moves the boundary between the
  components, and an integer and the string of its digits are written alike.
\<close>

theorem get_group_name_collision:
  "get_group_name (PStr ''a-b'') (PStr ''v'') (PStr ''c'')
     = get_group_name (PStr ''a'') (PStr ''v'') (PStr ''b-c'')
   \<and> (PStr ''a-b'', PStr ''c'', PStr ''v'') \<noteq> (PStr ''a'', PStr ''b-c'', PStr ''v'')
   \<and> get_group_name (PStr ''shop.Order'') (PInt 42) (PStr ''id'')
     = get_group_name (PStr ''shop.Order'') (PStr ''42'') (PStr ''id'')
   \<and> (PStr ''shop.Order'', PStr ''id'', PInt 42) \<noteq> (PStr ''shop.Order'', PStr ''id'', PStr ''42'')"
  by (simp add: get_group_name_def)

subsection \<open>Subscriptions\<close>

text \<open>
  C3, as the code has it. Two subscribe requests for the same tuple, with a group name
  the channel layer accepts, both return normally; each appends the group name to the
  connection's group list and calls \<open>group_add\<close>, so the list gains two copies of the
  name and the channel layer is called twice. The layer's group, a set, holds the
  connection's channel.
\<close>

theorem receive_json_subscribe_twice:
  assumes "dict_get cont ''model'' \<noteq> PNone"
    and "dict_get cont ''value'' \<noteq> PNone"
    and "\<not> truthy (dict_get_default cont ''unsubscribe'' (PBool False))"
    and "valid_group_name
           (get_group_name (dict_get cont ''model'') (dict_get cont ''value'')
              (dict_get cont ''property''))"
  shows "let g = get_group_name (dict_get cont ''model'') (dict_get cont ''value'')
                   (dict_get cont ''property'');
             (r1, s1) = receive_json cont s;
             (r2, s2) = receive_json cont s1
         in r1 = Returned \<and> r2 = Returned
            \<and> groups s2 = groups s @ [g, g]
            \<and> count_list (groups s2) g = count_list (groups s) g + 2
            \<and> fabric_calls (trace s2) =
                fabric_calls (trace s) @
                  [GroupAdd g (channel_name s), GroupAdd g (channel_name s)]
            \<and> channel_layer s2 =
                (channel_layer s)(g := insert (channel_name s) (channel_layer s g))"
  by (simp add: receive_json_subscribe [OF assms] Let_def fabric_calls_append)

theorem receive_json_subscribe_twice_witness:
  "dict_get [''model'' \<mapsto> PStr ''shop.Order'', ''property'' \<mapsto> PStr ''id'', ''value'' \<mapsto> PInt 42]
     ''model'' \<noteq> PNone
   \<and> dict_get [''model'' \<mapsto> PStr ''shop.Order'', ''property'' \<mapsto> PStr ''id'', ''value'' \<mapsto> PInt 42]
     ''value'' \<noteq> PNone
   \<and> \<not> truthy (dict_get_default
        [''model'' \<mapsto> PStr ''shop.Order'', ''property'' \<mapsto> PStr ''id'', ''value'' \<mapsto> PInt 42]
        ''unsubscribe'' (PBool False))
   \<and> valid_group_name (get_group_name (PStr ''shop.Order'') (PInt 42) (PStr ''id''))
   \<and> fabric_calls (trace (snd (receive_json
        [''model'' \<mapsto> PStr ''shop.Order'', ''property'' \<mapsto> PStr ''id'', ''value'' \<mapsto> PInt 42]
        (snd (receive_json
          [''model'' \<mapsto> PStr ''shop.Order'', ''property'' \<mapsto> PStr ''id'', ''value'' \<mapsto> PInt 42]
          (\<lparr>user = Some ''alice'', channel_name = ''chan'', groups = [],
         channel_layer = (\<lambda>g. {}), trace = []\<rparr> :: string consumer))))))
      = [GroupAdd ''RESOURCE-shop.Order-id-42'' ''chan'',
         GroupAdd ''RESOURCE-shop.Order-id-42'' ''chan'']"
  using receive_json_subscribe_twice
    [of "[''model'' \<mapsto> PStr ''shop.Order'', ''property'' \<mapsto> PStr ''id'', ''value'' \<mapsto> PInt 42]"
        "\<lparr>user = Some ''alice'', channel_name = ''chan'', groups = [],
         channel_layer = (\<lambda>g. {}), trace = []\<rparr>"]
  by (simp add: dict_get_def dict_get_default_def get_group_name_def valid_group_name_def
      Let_def split: prod.splits)

text \<open>
  C3, as stated, fails: after two subscribe requests for \<open>(shop.Order, id, 42)\<close> on a
  fresh connection the group list holds the group name twice.
\<close>

theorem receive_json_subscribe_twice_duplicates:
  "groups (snd (receive_json
        [''model'' \<mapsto> PStr ''shop.Order'', ''property'' \<mapsto> PStr ''id'', ''value'' \<mapsto> PInt 42]
        (snd (receive_json
          [''model'' \<mapsto> PStr ''shop.Order'', ''property'' \<mapsto> PStr ''id'', ''value'' \<mapsto> PInt 42]
          (\<lparr>user = Some ''alice'', channel_name = ''chan'', groups = [],
         channel_layer = (\<lambda>g. {}), trace = []\<rparr> :: string consumer)))))
     = [''RESOURCE-shop.Order-id-42'', ''RESOURCE-shop.Order-id-42'']"
  by (simp add: receive_json_def dict_get_def dict_get_default_def get_group_name_def
      Let_def emit_def group_add_def valid_group_name_def)

text \<open>
  C4 against the code: an unsubscribe request for \<open>(shop.Order, id, 42)\<close> on a connection
  that never subscribed. \<open>list.remove\<close> raises \<open>ValueError\<close>; the request does not end
  as a no-op. No call reaches the channel layer and the group list stays empty.
\<close>

theorem receive_json_unsubscribe_never_joined:
  "receive_json
     [''model'' \<mapsto> PStr ''shop.Order'', ''property'' \<mapsto> PStr ''id'', ''value'' \<mapsto> PInt 42,
      ''unsubscribe'' \<mapsto> PBool True]
     (\<lparr>user = Some ''alice'', channel_name = ''chan'', groups = [],
         channel_layer = (\<lambda>g. {}), trace = []\<rparr> :: string consumer)
   = (Raised ValueError,
      \<lparr>user = Some ''alice'', channel_name = ''chan'', groups = [],
       channel_layer = (\<lambda>g. {}),
       trace = [Print ''[REST-LIVE] got unsubscribe for RESOURCE-shop.Order-id-42'']\<rparr>)"
  by (simp add: receive_json_def dict_get_def dict_get_default_def get_group_name_def
      Let_def emit_def)

text \<open>
  C7 against the code: a request with \<open>model\<close> and \<open>value\<close> but no \<open>property\<close>. It is
  not rejected: the missing property is written \<open>None\<close> in the group name, the name is
  put in the group list and the channel layer is called.
\<close>

theorem receive_json_missing_property_subscribes:
  "[''model'' \<mapsto> PStr ''shop.Order'', ''value'' \<mapsto> PInt 42] ''property'' = None
   \<and> receive_json [''model'' \<mapsto> PStr ''shop.Order'', ''value'' \<mapsto> PInt 42]
        (\<lparr>user = Some ''alice'', channel_name = ''chan'', groups = [],
         channel_layer = (\<lambda>g. {}), trace = []\<rparr> :: string consumer)
     = (Returned,
        \<lparr>user = Some ''alice'', channel_name = ''chan'',
         groups = [''RESOURCE-shop.Order-None-42''],
         channel_layer = (\<lambda>g. {})(''RESOURCE-shop.Order-None-42'' := {''chan''}),
         trace = [Print ''[REST-LIVE] got subscription to RESOURCE-shop.Order-None-42'',
                  GroupAdd ''RESOURCE-shop.Order-None-42'' ''chan'']\<rparr>)"
  by (simp add: receive_json_def dict_get_def dict_get_default_def get_group_name_def
      Let_def emit_def group_add_def valid_group_name_def)

text \<open>
  C8. An unsubscribe request for a group the connection is a member of returns normally
  and removes one copy of the group name from the group list. \<open>group_discard\<close> is
  called exactly when no copy is left. With more than one copy before the request, one
  copy goes, the name is still in the list, and the channel layer is neither called nor
  changed.
\<close>

theorem receive_json_unsubscribe_member:
  assumes "dict_get cont ''model'' \<noteq> PNone"
    and "dict_get cont ''value'' \<noteq> PNone"
    and "truthy (dict_get_default cont ''unsubscribe'' (PBool False))"
    and "get_group_name (dict_get cont ''model'') (dict_get cont ''value'')
           (dict_get cont ''property'') \<in> set (groups s)"
  shows "let g = get_group_name (dict_get cont ''model'') (dict_get cont ''value'')
                   (dict_get cont ''property'');
             (r, s') = receive_json cont s
         in r = Returned
            \<and> groups s' = remove1 g (groups s)
            \<and> fabric_calls (trace s') =
                fabric_calls (trace s) @
                  (if g \<in> set (remove1 g (groups s)) then []
                   else [GroupDiscard g (channel_name s)])
            \<and> (1 < count_list (groups s) g \<longrightarrow>
                  g \<in> set (groups s')
                  \<and> count_list (groups s') g = count_list (groups s) g - 1
                  \<and> fabric_calls (trace s') = fabric_calls (trace s)
                  \<and> channel_layer s' = channel_layer s)"
  using assms
  by (simp add: receive_json_def Let_def emit_def group_discard_def fabric_calls_append
      count_list_remove1 member_remove1_iff)

theorem receive_json_unsubscribe_member_witness:
  "dict_get [''model'' \<mapsto> PStr ''shop.Order'', ''property'' \<mapsto> PStr ''id'', ''value'' \<mapsto> PInt 42,
             ''unsubscribe'' \<mapsto> PBool True] ''model'' \<noteq> PNone
   \<and> dict_get [''model'' \<mapsto> PStr ''shop.Order'', ''property'' \<mapsto> PStr ''id'', ''value'' \<mapsto> PInt 42,
             ''unsubscribe'' \<mapsto> PBool True] ''value'' \<noteq> PNone
   \<and> truthy (dict_get_default
        [''model'' \<mapsto> PStr ''shop.Order'', ''property'' \<mapsto> PStr ''id'', ''value'' \<mapsto> PInt 42,
         ''unsubscribe'' \<mapsto> PBool True] ''unsubscribe'' (PBool False))
   \<and> ''RESOURCE-shop.Order-id-42'' \<in> set [''RESOURCE-shop.Order-id-42'', ''RESOURCE-shop.Order-id-42'']
   \<and> receive_json
        [''model'' \<mapsto> PStr ''shop.Order'', ''property'' \<mapsto> PStr ''id'', ''value'' \<mapsto> PInt 42,
         ''unsubscribe'' \<mapsto> PBool True]
        \<lparr>user = Some ''alice'', channel_name = ''chan'',
         groups = [''RESOURCE-shop.Order-id-42'', ''RESOURCE-shop.Order-id-42''],
         channel_layer = (\<lambda>g. {})(''RESOURCE-shop.Order-id-42'' := {''chan''}),
         trace = []\<rparr>
      = (Returned,
         \<lparr>user = Some ''alice'', channel_name = ''chan'',
          groups = [''RESOURCE-shop.Order-id-42''],
          channel_layer = (\<lambda>g. {})(''RESOURCE-shop.Order-id-42'' := {''chan''}),
          trace = [Print ''[REST-LIVE] got unsubscribe for RESOURCE-shop.Order-id-42'']\<rparr>)"
  using receive_json_unsubscribe_member
    [of "[''model'' \<mapsto> PStr ''shop.Order'', ''property'' \<mapsto> PStr ''id'', ''value'' \<mapsto> PInt 42,
          ''unsubscribe'' \<mapsto> PBool True]"
        "\<lparr>user = Some ''alice'', channel_name = ''chan'',
          groups = [''RESOURCE-shop.Order-id-42'', ''RESOURCE-shop.Order-id-42''],
          channel_layer = (\<lambda>g. {})(''RESOURCE-shop.Order-id-42'' := {''chan''}),
          trace = []\<rparr>"]
  by (simp add: receive_json_def dict_get_def dict_get_default_def get_group_name_def
      Let_def emit_def)

end
